theory Spec2Isabelle
  imports Complex_Main
begin

section \<open>Numbers, strings and names\<close>

text \<open>
  The program is TypeScript; every quantity is a JavaScript \<^verbatim>\<open>number\<close>.  The embedding reads
  a \<^verbatim>\<open>number\<close> as a real.  Arithmetic on numbers is modelled in one function only,
  \<^verbatim>\<open>calculateVolatility\<close>, where it is exact and \<^verbatim>\<open>NaN\<close> and the infinities do not occur.
  In the engine a number is only carried: in the risk configuration, in a ledger entry, in
  an event.  Timestamps (\<^verbatim>\<open>Date.now()\<close>, in milliseconds) are integers.  Strings are byte
  strings.

  A few names of the source clash with constants of HOL or with each other and are
  renamed: \<^verbatim>\<open>TradeLog.id\<close> is \<open>tid\<close>, \<^verbatim>\<open>TradeLog.size\<close> is \<open>tsize\<close>, \<^verbatim>\<open>Market.id\<close> and
  \<^verbatim>\<open>Market.question\<close> are \<open>market_id\<close> and \<open>market_question\<close>, and the fields of
  \<^verbatim>\<open>PriceEntry\<close> carry the prefix \<open>pe_\<close>.
\<close>

section \<open>services/bitcoinService.ts\<close>

record PriceEntry =
  pe_timestamp :: int
  pe_price :: real

text \<open>
  \<^verbatim>\<open>calculateVolatility\<close> reads the module variable \<^verbatim>\<open>priceHistory\<close>; here it is the argument.
  \<^verbatim>\<open>reduce((a, b) => ..., 0)\<close> is a left fold from 0.
\<close>

definition calculateVolatility :: "PriceEntry list \<Rightarrow> real" where
  "calculateVolatility priceHistory =
     (if length priceHistory < 2 then 5.0
      else
        let prices = map pe_price priceHistory;
            mean = foldl (\<lambda>a b. a + b) 0 prices / real (length prices);
            variance = foldl (\<lambda>a b. a + (b - mean) ^ 2) 0 prices / real (length prices)
        in max (sqrt variance) 1.0)"

subsection \<open>The two standard deviations of a list of numbers\<close>

text \<open>
  The sample standard deviation divides the sum of squared deviations from the mean by
  \<open>n - 1\<close>; the population standard deviation divides it by \<open>n\<close>.
\<close>

definition sample_std_dev :: "real list \<Rightarrow> real" where
  "sample_std_dev xs =
     (let n = real (length xs); m = sum_list xs / n
      in sqrt (sum_list (map (\<lambda>x. (x - m) ^ 2) xs) / (n - 1)))"

definition population_std_dev :: "real list \<Rightarrow> real" where
  "population_std_dev xs =
     (let n = real (length xs); m = sum_list xs / n
      in sqrt (sum_list (map (\<lambda>x. (x - m) ^ 2) xs) / n))"

section \<open>types.ts\<close>

text \<open>
  The records keep the fields the engine reads or writes.  Of \<^verbatim>\<open>Market\<close> these are the id,
  the question and the two outcome tokens (index 0 is YES, index 1 is NO); of
  \<^verbatim>\<open>TradingSecrets\<close> the proxy address and the configuration flag; of \<^verbatim>\<open>BotStatus\<close> the
  activity flag, the trade counter, the ledger and the secrets.  The optional
  \<^verbatim>\<open>TradeLog.pnl\<close> is never written and is left out.
\<close>

datatype Outcome = YES | NO
datatype Side = BUY | SELL
datatype TradeStatus = OPEN | CLOSED | PARTIAL
datatype TradeDirectionBias = BOTH | YES_ONLY | NO_ONLY

record Market =
  market_id :: string
  market_question :: string
  clobTokenIds :: "string list"

record TradingSecrets =
  proxyAddress :: string
  isConfigured :: bool

record TradeLog =
  tid :: string
  timestamp :: int
  marketId :: string
  question :: string
  outcome :: Outcome
  side :: Side
  entryPrice :: real
  tsize :: real
  btcPriceAtEntry :: real
  modelProb :: real
  marketProb :: real
  volatilityAtEntry :: real
  status :: TradeStatus

record RiskConfig =
  maxPositionSize :: real
  edgeThreshold :: real
  maxTradesPerSeries :: real
  volatilityLookback :: real
  minProbThreshold :: real
  takeProfitPct :: real
  sellAmountPct :: real
  directionBias :: TradeDirectionBias
  maxBuyCountPerMarket :: real

record BotStatus =
  isActive :: bool
  tradesCount :: nat
  logs :: "TradeLog list"
  secrets :: TradingSecrets

section \<open>TradingTerminal.tsx: one tick of the engine\<close>

subsection \<open>What a tick can see and do\<close>

text \<open>
  The operator-visible event log.  Each constructor of \<open>EventMsg\<close> stands for one
  \<^verbatim>\<open>addEvent\<close> call that the engine or \<^verbatim>\<open>toggleBot\<close> executes and carries the values its
  message interpolates.  The source prepends an event and keeps the latest 100; the model
  appends, so \<open>systemEvents\<close> is the whole log, oldest first.

  \<open>JsError\<close> is the one error a tick raises.  Evaluating an identifier that has no binding
  raises a \<^verbatim>\<open>ReferenceError\<close>; the constructor carries the identifier.  The event of line
  600 interpolates the message of the error, whose wording is the JavaScript engine's;
  the model keeps the error itself.
\<close>

datatype EventType = INFO | WARN | SUCCESS | ERROR

datatype JsError = ReferenceError string

datatype EventMsg =
    EngineHalted
  | SkippingTick
  | TickAnalyzing string
  | FetchingBooks
  | CriticalEngineError JsError
  | StartupAborted
  | EngineInitializing
  | LoadingStrategy real real
  | ConnectingRelayer
  | ShutdownInitiated
  | TerminatingLoops

type_synonym SystemEvent = "EventMsg \<times> EventType"

text \<open>
  An order as \<^verbatim>\<open>placeOrderWithClient\<close> receives it (the signer and the API credentials are
  left out).
\<close>

record Order =
  funder :: string
  tokenID :: string
  limitPrice :: real
  orderSize :: real
  orderSide :: Side

text \<open>
  \<open>World\<close> is what persists between ticks: the React state \<^verbatim>\<open>botStatus\<close>, the two refs
  \<^verbatim>\<open>lastTradeTimeRef\<close> and \<^verbatim>\<open>processingTradeRef\<close>, the event log, and \<open>placed\<close>, the list of
  all calls of \<^verbatim>\<open>placeOrderWithClient\<close> so far, oldest first.  \<^verbatim>\<open>botStatusRef\<close> mirrors
  \<^verbatim>\<open>botStatus\<close> after every render and is read as \<open>botStatus\<close>.  The display flag
  \<^verbatim>\<open>isExecuting\<close> and the balances do not influence a decision and are left out.

  \<open>Closure\<close> is what one timer callback reads from its environment when it starts: the
  selected market, the risk configuration, whether the API credentials and the signer are
  there, and the model probability, the price and the volatility of the last render.
\<close>

record World =
  botStatus :: BotStatus
  lastTradeTime :: int
  processingTrade :: bool
  placed :: "Order list"
  systemEvents :: "SystemEvent list"

record Closure =
  selectedMarket :: "Market option"
  risk :: RiskConfig
  hasApiCreds :: bool
  hasSigner :: bool
  cl_modelProb :: real
  cl_btcPrice :: real
  cl_btcVol :: real

definition addEvent :: "EventMsg \<Rightarrow> EventType \<Rightarrow> World \<Rightarrow> World" where
  "addEvent msg ty w = w\<lparr>systemEvents := systemEvents w @ [(msg, ty)]\<rparr>"

subsection \<open>The body of a tick up to the order-book fetch\<close>

text \<open>
  \<open>tickBody\<close> is the \<^verbatim>\<open>try\<close> block of \<^verbatim>\<open>runEngine\<close> that starts at line 445.  Its value is
  \<open>Inl (e, w)\<close> when the block throws \<open>e\<close> in the world \<open>w\<close>, and \<open>Inr w\<close> when it
  completes in \<open>w\<close>.

  The block announces the tick (line 447), selects the OPEN positions of the market (line
  450), announces the fetch (line 452) and then evaluates
  \<^verbatim>\<open>fetchOrderBook(market.clobTokenIds[0])\<close> (line 454).  TradingTerminal.tsx imports six
  names from \<^verbatim>\<open>./services/polymarketService\<close> (lines 3 to 11): \<^verbatim>\<open>fetchBTCSeriesMarkets\<close>,
  \<^verbatim>\<open>fetchWalletStats\<close>, \<^verbatim>\<open>fetchProxyAddress\<close>, \<^verbatim>\<open>placeClobOrder\<close>,
  \<^verbatim>\<open>deriveApiCredentialsFromSigner\<close> and \<^verbatim>\<open>placeOrderWithClient\<close>.  \<^verbatim>\<open>fetchOrderBook\<close> is
  not one of them, and the file declares no \<^verbatim>\<open>fetchOrderBook\<close> of its own.  A call
  evaluates its callee first: the identifier has no binding, so line 454 raises a
  \<^verbatim>\<open>ReferenceError\<close> before an argument is evaluated, before \<^verbatim>\<open>Promise.all\<close> is called
  and before the \<^verbatim>\<open>await\<close> of line 453 suspends anything.  The block therefore always
  throws, in the world that holds the two announcements.

  The rest of the block (lines 458 to 597) is never executed: the best prices, the
  take-profit loop with its SELL, the cooldown gate, the entry conditions, the buy limit,
  the BUY, the classification of a failed submission, and every write of
  \<^verbatim>\<open>processingTradeRef\<close>, of \<^verbatim>\<open>lastTradeTimeRef\<close> and of the ledger.  It has no counterpart
  here.
\<close>

definition tickBody :: "Market \<Rightarrow> World \<Rightarrow> (JsError \<times> World) + World" where
  "tickBody market w =
     (let w1 = addEvent (TickAnalyzing (take 8 (market_id market))) INFO w;
          openTrades = filter (\<lambda>l. status l = OPEN \<and> marketId l = market_id market)
                         (logs (botStatus w));
          w2 = addEvent FetchingBooks INFO w1
      in Inl (ReferenceError ''fetchOrderBook'', w2))"

subsection \<open>runEngine\<close>

text \<open>
  Lines 427 to 602.  The tick returns at once when the engine is inactive or no market is
  selected (line 428); it halts the engine when the wallet or the credentials are missing
  (lines 434 to 438, an empty proxy address is falsy); it skips when the lock is set
  (lines 440 to 443).  Otherwise it runs the \<^verbatim>\<open>try\<close> block; the \<^verbatim>\<open>catch\<close> of line 598
  reports what the block throws as a critical engine error and the tick ends.

  \<^verbatim>\<open>runEngine\<close> is an \<^verbatim>\<open>async\<close> function.  An \<^verbatim>\<open>async\<close> function runs without
  interruption up to the first \<^verbatim>\<open>await\<close> it reaches, and no path through the lines that
  execute reaches one.  So a tick is one uninterrupted step of the world, and two ticks
  never overlap.
\<close>

definition runEngine :: "Closure \<Rightarrow> World \<Rightarrow> World" where
  "runEngine cl w =
     (case selectedMarket cl of
        None \<Rightarrow> w
      | Some market \<Rightarrow>
          if \<not> isActive (botStatus w) then w
          else
            let scr = secrets (botStatus w); rk = risk cl
            in if proxyAddress scr = [] \<or> \<not> isConfigured scr \<or> \<not> hasApiCreds cl \<or> \<not> hasSigner cl
               then addEvent EngineHalted ERROR
                      (w\<lparr>botStatus := (botStatus w)\<lparr>isActive := False\<rparr>\<rparr>)
               else if processingTrade w then addEvent SkippingTick WARN w
               else (case tickBody market w of
                       Inl (e, w') \<Rightarrow> addEvent (CriticalEngineError e) ERROR w'
                     | Inr w' \<Rightarrow> w'))"

section \<open>The operator and sequences of ticks\<close>

text \<open>
  \<^verbatim>\<open>toggleBot\<close> (line 607) starts and stops the engine.  \<open>updateSecrets\<close> stands for the
  other writers of \<^verbatim>\<open>botStatus\<close> (lines 186, 207, 327, 824 and 850): each replaces the
  secrets.  (Line 290 writes balances, which are left out.)  None of them touches the
  ledger, the trade counter or a ref.  \<open>initialWorld\<close> is the state the component mounts with
  (lines 86, 87 and 103 to 130); the saved proxy address and configuration flag come from
  local storage.  A run applies a list of inputs, one after the other, to a world.
\<close>

definition toggleBot :: "Closure \<Rightarrow> World \<Rightarrow> World" where
  "toggleBot cl w =
     (if \<not> isActive (botStatus w)
         \<and> (\<not> isConfigured (secrets (botStatus w)) \<or> \<not> hasApiCreds cl \<or> \<not> hasSigner cl)
      then addEvent StartupAborted ERROR w
      else
        let nextState = \<not> isActive (botStatus w);
            w1 = w\<lparr>botStatus := (botStatus w)\<lparr>isActive := nextState\<rparr>\<rparr>
        in if nextState
           then addEvent ConnectingRelayer INFO
                  (addEvent (LoadingStrategy (maxPositionSize (risk cl)) (edgeThreshold (risk cl))) INFO
                    (addEvent EngineInitializing SUCCESS w1))
           else addEvent TerminatingLoops INFO (addEvent ShutdownInitiated WARN w1))"

definition updateSecrets :: "TradingSecrets \<Rightarrow> World \<Rightarrow> World" where
  "updateSecrets s w = w\<lparr>botStatus := (botStatus w)\<lparr>secrets := s\<rparr>\<rparr>"

definition initialWorld :: "TradingSecrets \<Rightarrow> World" where
  "initialWorld saved =
     \<lparr>botStatus = \<lparr>isActive = False, tradesCount = 0, logs = [], secrets = saved\<rparr>,
      lastTradeTime = 0, processingTrade = False, placed = [], systemEvents = []\<rparr>"

datatype Input = Tick Closure | ToggleBot Closure | UpdateSecrets TradingSecrets

fun applyInput :: "World \<Rightarrow> Input \<Rightarrow> World" where
  "applyInput w (Tick cl) = runEngine cl w"
| "applyInput w (ToggleBot cl) = toggleBot cl w"
| "applyInput w (UpdateSecrets s) = updateSecrets s w"

definition run :: "Input list \<Rightarrow> World \<Rightarrow> World" where
  "run ins w = foldl applyInput w ins"

section \<open>Vocabulary of the statements\<close>

text \<open>
  \<open>tickRuns\<close>: the tick passes the three preconditions of lines 428 to 443 and enters the
  \<^verbatim>\<open>try\<close> block.  \<open>newOrders\<close>: the orders placed between two worlds.  \<open>currentBuys\<close>: the
  number of ledger entries with side BUY for the market, whatever their status (the count
  the source writes at line 537).  \<open>spec_transition\<close>: the arcs of the status machine as
  the specification draws it.
\<close>

definition tickRuns :: "Closure \<Rightarrow> World \<Rightarrow> bool" where
  "tickRuns cl w \<longleftrightarrow>
     isActive (botStatus w) \<and> selectedMarket cl \<noteq> None
     \<and> proxyAddress (secrets (botStatus w)) \<noteq> [] \<and> isConfigured (secrets (botStatus w))
     \<and> hasApiCreds cl \<and> hasSigner cl \<and> \<not> processingTrade w"

definition newOrders :: "World \<Rightarrow> World \<Rightarrow> Order list" where
  "newOrders w w' = drop (length (placed w)) (placed w')"



section \<open>Example inputs\<close>

text \<open>
  A market, the default risk configuration (lines 91 to 101), a configured wallet, and the
  closure of a render with model probability 85.  \<open>started\<close> is the world after the
  component has mounted and the operator has started the engine.
\<close>

definition m0 :: Market where
  "m0 = \<lparr>market_id = ''btc-updown-15m'', market_question = ''Bitcoin up or down?'',
         clobTokenIds = [''yes-token'', ''no-token'']\<rparr>"

definition rk0 :: RiskConfig where
  "rk0 = \<lparr>maxPositionSize = 10, edgeThreshold = 3, maxTradesPerSeries = 5,
          volatilityLookback = 60, minProbThreshold = 80, takeProfitPct = 20,
          sellAmountPct = 100, directionBias = BOTH, maxBuyCountPerMarket = 3\<rparr>"

definition cl0 :: Closure where
  "cl0 = \<lparr>selectedMarket = Some m0, risk = rk0, hasApiCreds = True, hasSigner = True,
          cl_modelProb = 85, cl_btcPrice = 100000, cl_btcVol = 5\<rparr>"

definition secrets0 :: TradingSecrets where
  "secrets0 = \<lparr>proxyAddress = ''0xproxy'', isConfigured = True\<rparr>"

definition started :: World where
  "started = run [ToggleBot cl0] (initialWorld secrets0)"







section \<open>The price feed\<close>

lemma foldl_plus_sum_list:
  "foldl (\<lambda>a b. a + f b) a xs = a + sum_list (map f (xs::real list))"
  by (induction xs arbitrary: a) (simp_all add: add.assoc)

lemma calculateVolatility_population:
  "2 \<le> length h \<Longrightarrow>
   calculateVolatility h = max (population_std_dev (map pe_price h)) 1"
  using foldl_plus_sum_list[of "\<lambda>b. b" 0 "map pe_price h"]
  by (simp add: calculateVolatility_def population_std_dev_def Let_def foldl_plus_sum_list)

text \<open>
  C8, as amended.  With at least two retained samples \<open>volatility\<close> is the population
  standard deviation of the retained prices (the squared deviations are divided by the
  number of samples \<open>n\<close>, not by \<open>n - 1\<close>), floored at 1, hence at least 1; with fewer than
  two samples it is exactly 5.
\<close>

theorem calculateVolatility_floor:
  "(2 \<le> length h \<longrightarrow>
      calculateVolatility h = max (population_std_dev (map pe_price h)) 1
      \<and> 1 \<le> calculateVolatility h)
   \<and> (length h < 2 \<longrightarrow> calculateVolatility h = 5)"
proof -
  have "length h < 2 \<Longrightarrow> calculateVolatility h = 5"
    by (simp add: calculateVolatility_def)
  moreover have "2 \<le> length h \<Longrightarrow> 1 \<le> calculateVolatility h"
    by (simp add: calculateVolatility_population)
  ultimately show ?thesis
    by (simp add: calculateVolatility_population)
qed

theorem calculateVolatility_floor_witness:
  "(2 \<le> length [\<lparr>pe_timestamp = 0, pe_price = 100\<rparr>, \<lparr>pe_timestamp = 1, pe_price = 104\<rparr>]
     \<and> calculateVolatility
          [\<lparr>pe_timestamp = 0, pe_price = 100\<rparr>, \<lparr>pe_timestamp = 1, pe_price = 104\<rparr>] = 2
     \<and> population_std_dev [100, 104] = 2)
   \<and> (length [\<lparr>pe_timestamp = 0, pe_price = 7\<rparr>] < 2
     \<and> calculateVolatility [\<lparr>pe_timestamp = 0, pe_price = 7\<rparr>] = 5)"
  using calculateVolatility_floor
          [of "[\<lparr>pe_timestamp = 0, pe_price = 100\<rparr>, \<lparr>pe_timestamp = 1, pe_price = 104\<rparr>]"]
    calculateVolatility_floor[of "[\<lparr>pe_timestamp = 0, pe_price = 7\<rparr>]"]
  by (simp add: population_std_dev_def Let_def)

text \<open>
  C8 as the specification words it fails: on the two retained prices 100 and 104 the code
  returns 2 (mean 102, squared deviations 4 and 4, divided by 2), while their sample
  standard deviation (the same sum divided by 1) is \<open>sqrt 8\<close>, and so is its floor at 1.
\<close>

theorem calculateVolatility_sample_counterexample:
  "calculateVolatility
      [\<lparr>pe_timestamp = 0, pe_price = 100\<rparr>, \<lparr>pe_timestamp = 1, pe_price = 104\<rparr>] = 2
   \<and> max (sample_std_dev
            (map pe_price
              [\<lparr>pe_timestamp = 0, pe_price = 100\<rparr>, \<lparr>pe_timestamp = 1, pe_price = 104\<rparr>])) 1
       = sqrt 8
   \<and> sqrt 8 \<noteq> (2::real)"
proof -
  have s4: "sqrt 4 = (2::real)" by simp
  have ne: "sqrt 8 \<noteq> (2::real)"
    using real_sqrt_eq_iff[of 8 4] by (simp only: s4)
  have ge: "1 \<le> sqrt (8::real)" by simp
  have code: "calculateVolatility
      [\<lparr>pe_timestamp = 0, pe_price = 100\<rparr>, \<lparr>pe_timestamp = 1, pe_price = 104\<rparr>] = 2"
    by (simp add: calculateVolatility_def Let_def)
  have spec: "max (sample_std_dev
            (map pe_price
              [\<lparr>pe_timestamp = 0, pe_price = 100\<rparr>, \<lparr>pe_timestamp = 1, pe_price = 104\<rparr>])) 1
       = sqrt 8"
    using ge by (simp add: sample_std_dev_def Let_def max_def)
  from code spec ne show ?thesis by simp
qed

section \<open>What a tick changes\<close>

text \<open>
  A tick that passes its preconditions appends three events and changes nothing else.
\<close>

lemma runEngine_critical:
  assumes "tickRuns cl w" and "selectedMarket cl = Some market"
  shows "runEngine cl w =
           w\<lparr>systemEvents := systemEvents w @
               [(TickAnalyzing (take 8 (market_id market)), INFO),
                (FetchingBooks, INFO),
                (CriticalEngineError (ReferenceError ''fetchOrderBook''), ERROR)]\<rparr>"
  using assms by (simp add: runEngine_def tickRuns_def tickBody_def addEvent_def Let_def)

text \<open>
  No tick, whatever its closure and its world, places an order, touches the ledger, the
  trade counter or the secrets, or writes a ref.
\<close>

lemma runEngine_frame:
  "placed (runEngine cl w) = placed w"
  "logs (botStatus (runEngine cl w)) = logs (botStatus w)"
  "tradesCount (botStatus (runEngine cl w)) = tradesCount (botStatus w)"
  "secrets (botStatus (runEngine cl w)) = secrets (botStatus w)"
  "lastTradeTime (runEngine cl w) = lastTradeTime w"
  "processingTrade (runEngine cl w) = processingTrade w"
  by (simp_all add: runEngine_def tickBody_def addEvent_def Let_def split: option.splits)


lemma applyInput_frame:
  "placed (applyInput w inp) = placed w"
  "logs (botStatus (applyInput w inp)) = logs (botStatus w)"
  "tradesCount (botStatus (applyInput w inp)) = tradesCount (botStatus w)"
  "lastTradeTime (applyInput w inp) = lastTradeTime w"
  "processingTrade (applyInput w inp) = processingTrade w"
  by (cases inp; simp add: runEngine_frame toggleBot_def updateSecrets_def addEvent_def Let_def)+

lemma run_frame:
  "placed (run ins w) = placed w"
  "logs (botStatus (run ins w)) = logs (botStatus w)"
  "tradesCount (botStatus (run ins w)) = tradesCount (botStatus w)"
  "lastTradeTime (run ins w) = lastTradeTime w"
  "processingTrade (run ins w) = processingTrade w"
  unfolding run_def
  by (induction ins arbitrary: w; simp add: applyInput_frame)+

text \<open>
  From the state the component mounts with, the ledger stays empty, the cooldown
  reference stays 0 and the lock stays free.
\<close>

lemma ledger_stays_empty:
  "logs (botStatus (run ins (initialWorld saved))) = []"
  "lastTradeTime (run ins (initialWorld saved)) = 0"
  "\<not> processingTrade (run ins (initialWorld saved))"
  "placed (run ins (initialWorld saved)) = []"
  by (simp_all add: run_frame initialWorld_def)

lemma started_eval:
  "started =
     \<lparr>botStatus = \<lparr>isActive = True, tradesCount = 0, logs = [], secrets = secrets0\<rparr>,
      lastTradeTime = 0, processingTrade = False, placed = [],
      systemEvents = [(EngineInitializing, SUCCESS), (LoadingStrategy 10 3, INFO),
                      (ConnectingRelayer, INFO)]\<rparr>"
  by (simp add: started_def run_def toggleBot_def initialWorld_def addEvent_def Let_def
      secrets0_def cl0_def rk0_def)

lemma tickRuns_started: "tickRuns cl0 started"
  by (simp add: tickRuns_def started_eval cl0_def secrets0_def)

section \<open>The claims\<close>

text \<open>
  C1.  The engine is started with a configured wallet, the lock is free, the market
  \<open>m0\<close> is selected, the model probability is 85, the thresholds are the defaults
  (minimum probability 80, edge 3, bias BOTH).  Whatever the order book of the YES token
  offers (a best ask of 0.78, say, for which the specification has a YES entry trigger), the
  tick raises at the order-book fetch and ends with the critical engine error: it
  evaluates no entry condition, chooses no side and places no order.
\<close>

theorem entry_evaluation_unreached:
  "tickRuns cl0 started
   \<and> cl_modelProb cl0 = 85
   \<and> minProbThreshold (risk cl0) = 80 \<and> edgeThreshold (risk cl0) = 3
   \<and> directionBias (risk cl0) = BOTH
   \<and> runEngine cl0 started =
       started\<lparr>systemEvents := systemEvents started @
         [(TickAnalyzing ''btc-updo'', INFO),
          (FetchingBooks, INFO),
          (CriticalEngineError (ReferenceError ''fetchOrderBook''), ERROR)]\<rparr>
   \<and> placed (runEngine cl0 started) = []"
proof -
  have "selectedMarket cl0 = Some m0" by (simp add: cl0_def)
  from runEngine_critical[OF tickRuns_started this]
  have "runEngine cl0 started =
       started\<lparr>systemEvents := systemEvents started @
         [(TickAnalyzing ''btc-updo'', INFO),
          (FetchingBooks, INFO),
          (CriticalEngineError (ReferenceError ''fetchOrderBook''), ERROR)]\<rparr>"
    by (simp add: m0_def)
  moreover have "placed (runEngine cl0 started) = []"
    by (simp add: runEngine_frame started_eval)
  ultimately show ?thesis
    using tickRuns_started by (simp add: cl0_def rk0_def)
qed

theorem entry_evaluation_unreached_witness:
  "newOrders started (runEngine cl0 started) = []
   \<and> last (systemEvents (runEngine cl0 started))
       = (CriticalEngineError (ReferenceError ''fetchOrderBook''), ERROR)"
  using entry_evaluation_unreached by (simp add: newOrders_def)













end
